theory Spec2Isabelle
  imports Main
begin

section \<open>Python strings\<close>

text \<open>
  A Python \<^verbatim>\<open>str\<close> is a sequence of Unicode code points: \<^verbatim>\<open>len\<close> counts code
  points and a slice cuts between them. A character is therefore modelled by its code
  point (\<^verbatim>\<open>ord(c)\<close>) and a string by the list of its code points. Natural numbers
  beyond 0x10FFFF stand for no Python character; every statement below holds for them
  as well.
\<close>

type_synonym pychar = nat
type_synonym pystr = "pychar list"

definition ascii :: "string \<Rightarrow> pystr" where
  "ascii cs = map of_char cs"

definition dquote :: pychar where
  "dquote = 34"

definition squote :: pychar where
  "squote = 39"

definition backslash :: pychar where
  "backslash = 92"

definition comma :: pychar where
  "comma = 44"

subsection \<open>Character classification\<close>

text \<open>
  \<^verbatim>\<open>str.isalnum\<close> and \<^verbatim>\<open>str.isspace\<close> read the Unicode character database of the
  Python interpreter, which is no part of the repository. Their values on the ASCII
  range are fixed and written out; beyond ASCII they are a parameter of the model.
\<close>

record unicode_db =
  isalnum :: "pychar \<Rightarrow> bool"
  isspace :: "pychar \<Rightarrow> bool"

definition ascii_alnum :: "pychar \<Rightarrow> bool" where
  "ascii_alnum c \<longleftrightarrow> 48 \<le> c \<and> c \<le> 57 \<or> 65 \<le> c \<and> c \<le> 90 \<or> 97 \<le> c \<and> c \<le> 122"

definition ascii_space :: "pychar \<Rightarrow> bool" where
  "ascii_space c \<longleftrightarrow> 9 \<le> c \<and> c \<le> 13 \<or> 28 \<le> c \<and> c \<le> 32"

definition str_isalnum :: "unicode_db \<Rightarrow> pychar \<Rightarrow> bool" where
  "str_isalnum db c = (if c < 128 then ascii_alnum c else isalnum db c)"

definition str_isspace :: "unicode_db \<Rightarrow> pychar \<Rightarrow> bool" where
  "str_isspace db c = (if c < 128 then ascii_space c else isspace db c)"

text \<open>
  A database under which no code point beyond ASCII is alphanumeric or whitespace. On a
  string of ASCII characters the database is never consulted, so evaluations at ASCII
  inputs under it are evaluations under every database (see \<open>sanitize_query_ascii\<close>).
\<close>

definition ascii_only_db :: unicode_db where
  "ascii_only_db = \<lparr>isalnum = (\<lambda>c. False), isspace = (\<lambda>c. False)\<rparr>"

subsection \<open>String methods\<close>

text \<open>
  \<^verbatim>\<open>s.replace(old, new)\<close>: the occurrences of \<open>old\<close> are found from the left and do
  not overlap; an empty \<open>old\<close> matches before every character and at the end.
\<close>

function str_replace :: "pystr \<Rightarrow> pystr \<Rightarrow> pystr \<Rightarrow> pystr" where
  "str_replace old new [] = (if old = [] then new else [])"
| "str_replace old new (c # cs) =
     (if old = [] then new @ c # str_replace old new cs
      else if take (length old) (c # cs) = old
        then new @ str_replace old new (drop (length old) (c # cs))
      else c # str_replace old new cs)"
  by pat_completeness auto
termination
  by (relation "measure (\<lambda>(old, new, s). length s)") auto

text \<open>\<^verbatim>\<open>s.strip()\<close>: leading and trailing whitespace removed.\<close>

definition str_strip :: "unicode_db \<Rightarrow> pystr \<Rightarrow> pystr" where
  "str_strip db s = rev (dropWhile (str_isspace db) (rev (dropWhile (str_isspace db) s)))"

text \<open>
  \<^verbatim>\<open>s.split(sep)\<close> for a separator of one character: the pieces between the
  separators, empty pieces included; the empty string gives one empty piece.
\<close>

fun str_split :: "pychar \<Rightarrow> pystr \<Rightarrow> pystr list" where
  "str_split sep [] = [[]]"
| "str_split sep (c # cs) =
     (if c = sep then [] # str_split sep cs
      else (case str_split sep cs of
              [] \<Rightarrow> [[c]]
            | p # ps \<Rightarrow> (c # p) # ps))"

text \<open>\<^verbatim>\<open>sep.join(xs)\<close>.\<close>

fun str_join :: "pystr \<Rightarrow> pystr list \<Rightarrow> pystr" where
  "str_join sep [] = []"
| "str_join sep [x] = x"
| "str_join sep (x # y # ys) = x @ sep @ str_join sep (y # ys)"

subsection \<open>The regular expression of the sanitizer\<close>

text \<open>
  The pattern \<^verbatim>\<open>[^\w\s\-\.\(\)&]\<close> is one negated character class. For a
  \<^verbatim>\<open>str\<close> pattern without flags \<^verbatim>\<open>\w\<close> is \<^verbatim>\<open>isalnum\<close> or an underscore and
  \<^verbatim>\<open>\s\<close> is \<^verbatim>\<open>isspace\<close>. \<open>re_class\<close> is the set inside the brackets; the pattern
  matches exactly the single characters outside it.
\<close>

definition re_word :: "unicode_db \<Rightarrow> pychar \<Rightarrow> bool" where
  "re_word db c \<longleftrightarrow> str_isalnum db c \<or> c = 95"

definition re_class :: "unicode_db \<Rightarrow> pychar \<Rightarrow> bool" where
  "re_class db c \<longleftrightarrow>
     re_word db c \<or> str_isspace db c \<or> c = 45 \<or> c = 46 \<or> c = 40 \<or> c = 41 \<or> c = 38"

text \<open>
  \<^verbatim>\<open>re.sub(pattern, repl, s)\<close> for a pattern that matches single characters (those
  satisfying \<open>m\<close>) and a replacement without group references: every matching character
  is replaced by \<open>repl\<close>.
\<close>

definition re_sub :: "(pychar \<Rightarrow> bool) \<Rightarrow> pystr \<Rightarrow> pystr \<Rightarrow> pystr" where
  "re_sub m repl s = concat (map (\<lambda>c. if m c then repl else [c]) s)"

section \<open>The sanitizer\<close>

definition sanitize_query :: "unicode_db \<Rightarrow> pystr \<Rightarrow> pystr" where
  "sanitize_query db query =
     (let query = str_replace [dquote] [backslash, dquote] query;
          query = str_replace [squote] [backslash, squote] query;
          query = re_sub (\<lambda>c. \<not> re_class db c) [] query
      in take 100 query)"

section \<open>Running a script\<close>

text \<open>
  \<^verbatim>\<open>subprocess.run(argv, capture_output=True, text=True, timeout=t)\<close> either
  returns a completed process (exit code, captured output and error text) or raises.
  The handlers of \<open>run_applescript\<close> tell \<^verbatim>\<open>TimeoutExpired\<close> from every other
  exception of class \<^verbatim>\<open>Exception\<close>, of which only \<^verbatim>\<open>str(e)\<close> is read. What the
  operating system does with a command is a parameter \<open>os\<close>; every call is appended to
  a log of the commands handed to it.
\<close>

datatype exn = TimeoutExpired | OtherException pystr

record completed_process =
  returncode :: int
  stdout :: pystr
  stderr :: pystr

type_synonym os = "pystr list \<Rightarrow> nat \<Rightarrow> exn + completed_process"
type_synonym log = "pystr list list"

definition subprocess_run ::
  "os \<Rightarrow> pystr list \<Rightarrow> nat \<Rightarrow> log \<Rightarrow> (exn + completed_process) \<times> log" where
  "subprocess_run os argv timeout lg = (os argv timeout, lg @ [argv])"

definition osascript_argv :: "pystr \<Rightarrow> pystr list" where
  "osascript_argv script = [ascii ''osascript'', ascii ''-e'', script]"

definition run_applescript ::
  "unicode_db \<Rightarrow> os \<Rightarrow> pystr \<Rightarrow> log \<Rightarrow> (exn + pystr) \<times> log" where
  "run_applescript db os script lg =
     (case subprocess_run os (osascript_argv script) 30 lg of
        (Inr result, lg') \<Rightarrow>
          if returncode result \<noteq> 0
          then (Inr (ascii ''Error: '' @ str_strip db (stderr result)), lg')
          else (Inr (str_strip db (stdout result)), lg')
      | (Inl TimeoutExpired, lg') \<Rightarrow>
          (Inr (ascii ''Error: AppleScript execution timed out''), lg')
      | (Inl (OtherException msg), lg') \<Rightarrow>
          (Inr (ascii ''Error: '' @ msg), lg'))"

section \<open>The tools that embed user input\<close>

definition itunes_search_script :: "pystr \<Rightarrow> pystr" where
  \<open>itunes_search_script sanitized_query =
     ascii ''\<newline>'' @
     ascii ''    tell application "Music"\<newline>'' @
     ascii ''        set trackList to every track whose name contains "'' @
       sanitized_query @ ascii ''"\<newline>'' @
     ascii ''        set output to ""\<newline>'' @
     ascii ''        repeat with t in trackList\<newline>'' @
     ascii ''            set output to output & (name of t) & " - " & (artist of t) & linefeed\<newline>'' @
     ascii ''        end repeat\<newline>'' @
     ascii ''        return output\<newline>'' @
     ascii ''    end tell\<newline>'' @
     ascii ''    ''\<close>

definition itunes_search ::
  "unicode_db \<Rightarrow> os \<Rightarrow> pystr \<Rightarrow> log \<Rightarrow> (exn + pystr) \<times> log" where
  "itunes_search db os query lg =
     (let sanitized_query = sanitize_query db query;
          script = itunes_search_script sanitized_query
      in run_applescript db os script lg)"

definition itunes_create_playlist_script :: "pystr \<Rightarrow> pystr \<Rightarrow> pystr" where
  \<open>itunes_create_playlist_script sanitized_name conditions =
     ascii ''\<newline>'' @
     ascii ''    tell application "Music"\<newline>'' @
     ascii ''        set newPlaylist to make new user playlist with properties {name:"'' @
       sanitized_name @ ascii ''"}\<newline>'' @
     ascii ''        set matchingTracks to every track whose ('' @ conditions @ ascii '')\<newline>'' @
     ascii ''        repeat with t in matchingTracks\<newline>'' @
     ascii ''            duplicate t to newPlaylist\<newline>'' @
     ascii ''        end repeat\<newline>'' @
     ascii ''        return "Playlist '' @ [backslash, dquote] @ sanitized_name @
       [backslash, dquote] @
       ascii '' created with " & (count of tracks of newPlaylist) & " tracks."\<newline>'' @
     ascii ''    end tell\<newline>'' @
     ascii ''    ''\<close>

definition itunes_create_playlist ::
  "unicode_db \<Rightarrow> os \<Rightarrow> pystr \<Rightarrow> pystr \<Rightarrow> log \<Rightarrow> (exn + pystr) \<times> log" where
  "itunes_create_playlist db os name songs lg =
     (let song_list =
            map (\<lambda>s. sanitize_query db (str_strip db s))
              (filter (\<lambda>s. str_strip db s \<noteq> []) (str_split comma songs))
      in if song_list = [] then (Inr (ascii ''No songs provided.''), lg)
         else
           (let conditions =
                  str_join (ascii '' or '')
                    (map (\<lambda>s. ascii ''name is '' @ [dquote] @ s @ [dquote]) song_list);
                sanitized_name = sanitize_query db name;
                script = itunes_create_playlist_script sanitized_name conditions
            in run_applescript db os script lg))"

section \<open>The sanitizer as the specification words it\<close>

text \<open>
  The specification gives four steps, each on the result of the one before: a backslash
  is put before every double quote, then before every single quote; every character that
  is no word character (letter, digit, underscore), whitespace, hyphen, period,
  parenthesis or ampersand is deleted; the first 100 characters are kept.
\<close>

primrec spec_escape :: "pychar \<Rightarrow> pystr \<Rightarrow> pystr" where
  "spec_escape q [] = []"
| "spec_escape q (c # cs) =
     (if c = q then backslash # c # spec_escape q cs else c # spec_escape q cs)"

definition spec_allowed :: "unicode_db \<Rightarrow> pychar \<Rightarrow> bool" where
  "spec_allowed db c \<longleftrightarrow>
     str_isalnum db c \<or> c = 95 \<or> str_isspace db c \<or> c \<in> set (ascii ''-.()&'')"

definition spec_delete :: "unicode_db \<Rightarrow> pystr \<Rightarrow> pystr" where
  "spec_delete db s = filter (spec_allowed db) s"

definition spec_truncate :: "pystr \<Rightarrow> pystr" where
  "spec_truncate s = take 100 s"

definition spec_sanitize :: "unicode_db \<Rightarrow> pystr \<Rightarrow> pystr" where
  "spec_sanitize db s =
     spec_truncate (spec_delete db (spec_escape squote (spec_escape dquote s)))"

section \<open>Facts about the string operations\<close>

lemma str_replace_char:
  "str_replace [q] new s = concat (map (\<lambda>c. if c = q then new else [c]) s)"
  by (induction s) simp_all

lemma re_sub_delete: "re_sub (\<lambda>c. \<not> P c) [] s = filter P s"
  by (induction s) (simp_all add: re_sub_def)

lemma filter_escaped:
  "\<not> P q \<Longrightarrow> \<not> P b \<Longrightarrow>
   filter P (concat (map (\<lambda>c. if c = q then [b, q] else [c]) s)) = filter P s"
  by (induction s) simp_all

lemmas class_defs =
  re_class_def re_word_def str_isalnum_def str_isspace_def ascii_alnum_def ascii_space_def

lemma re_class_dquote: "\<not> re_class db dquote"
  by (simp add: class_defs dquote_def)

lemma re_class_squote: "\<not> re_class db squote"
  by (simp add: class_defs squote_def)

lemma re_class_backslash: "\<not> re_class db backslash"
  by (simp add: class_defs backslash_def)

text \<open>
  The two replacements leave no trace in the result: what the function returns is the
  first 100 characters of the input with the characters outside the class deleted.
\<close>

lemma sanitize_query_filter: "sanitize_query db s = take 100 (filter (re_class db) s)"
  by (simp add: sanitize_query_def Let_def str_replace_char re_sub_delete filter_escaped
      re_class_dquote re_class_squote re_class_backslash)

lemma sanitize_query_class: "c \<in> set (sanitize_query db s) \<Longrightarrow> re_class db c"
  by (auto simp: sanitize_query_filter dest: in_set_takeD)

lemma re_class_ascii: "c < 128 \<Longrightarrow> re_class db c = re_class db' c"
  by (simp add: class_defs)

lemma sanitize_query_ascii:
  "\<forall>c \<in> set s. c < 128 \<Longrightarrow> sanitize_query db s = sanitize_query db' s"
proof -
  assume "\<forall>c \<in> set s. c < 128"
  then have "filter (re_class db) s = filter (re_class db') s"
    by (intro filter_cong) (auto simp: re_class_ascii)
  then show ?thesis by (simp add: sanitize_query_filter)
qed

lemma str_replace_spec_escape: "str_replace [q] [backslash, q] s = spec_escape q s"
  by (induction s) simp_all

lemma spec_allowed_re_class: "spec_allowed db = re_class db"
  by (auto simp: fun_eq_iff spec_allowed_def re_class_def re_word_def ascii_def)

lemma sanitize_query_spec: "sanitize_query db s = spec_sanitize db s"
  by (simp add: sanitize_query_def spec_sanitize_def spec_truncate_def spec_delete_def
      str_replace_spec_escape re_sub_delete spec_allowed_re_class)

lemma re_class_a: "re_class db 97"
  by (simp add: class_defs)

lemma re_class_bang: "\<not> re_class db 33"
  by (simp add: class_defs)

lemma sanitize_query_no_dquote: "count_list (sanitize_query db s) dquote = 0"
  using sanitize_query_class [of dquote db s] re_class_dquote [of db]
  by (auto simp: count_list_0_iff)

text \<open>Stripping leaves nothing exactly when every character is whitespace.\<close>

lemma str_strip_empty: "str_strip db s = [] \<longleftrightarrow> (\<forall>c \<in> set s. str_isspace db c)"
proof
  assume "str_strip db s = []"
  then have all: "\<forall>c \<in> set (dropWhile (str_isspace db) s). str_isspace db c"
    by (simp add: str_strip_def dropWhile_eq_Nil_conv)
  have "dropWhile (str_isspace db) s = []"
  proof (rule ccontr)
    assume ne: "dropWhile (str_isspace db) s \<noteq> []"
    then have "\<not> str_isspace db (hd (dropWhile (str_isspace db) s))"
      by (rule hd_dropWhile)
    moreover have "hd (dropWhile (str_isspace db) s) \<in> set (dropWhile (str_isspace db) s)"
      using ne by (rule hd_in_set)
    ultimately show False using all by blast
  qed
  then show "\<forall>c \<in> set s. str_isspace db c"
    by (simp add: dropWhile_eq_Nil_conv)
next
  assume "\<forall>c \<in> set s. str_isspace db c"
  then have dw: "dropWhile (str_isspace db) s = []"
    by (simp add: dropWhile_eq_Nil_conv)
  show "str_strip db s = []"
    unfolding str_strip_def dw by simp
qed

lemma run_applescript_log:
  "snd (run_applescript db os script lg) = lg @ [osascript_argv script]"
  by (simp add: run_applescript_def subprocess_run_def split: sum.split exn.split)

text \<open>The template of the search script holds eight double quotes.\<close>

lemma itunes_search_script_quotes:
  "count_list (itunes_search_script q) dquote = 8 + count_list q dquote"
  by (simp add: itunes_search_script_def ascii_def dquote_def)

section \<open>Properties of the sanitizer\<close>

text \<open>
  Claim C1. Every character of \<open>sanitize_query s\<close> is a word character (alphanumeric or
  underscore), whitespace, or one of hyphen, period, the two parentheses and ampersand;
  in particular the result holds no double quote, no single quote and no backslash.
\<close>

theorem sanitize_query_allowed_chars:
  "(\<forall>c \<in> set (sanitize_query db s).
      str_isalnum db c \<or> str_isspace db c \<or> c \<in> set (ascii ''_-.()&'')) \<and>
   dquote \<notin> set (sanitize_query db s) \<and>
   squote \<notin> set (sanitize_query db s) \<and>
   backslash \<notin> set (sanitize_query db s)"
proof -
  have cls: "re_class db c" if "c \<in> set (sanitize_query db s)" for c
    using that by (rule sanitize_query_class)
  have "str_isalnum db c \<or> str_isspace db c \<or> c \<in> set (ascii ''_-.()&'')"
    if "c \<in> set (sanitize_query db s)" for c
    using cls [OF that] by (auto simp: re_class_def re_word_def ascii_def)
  moreover have "dquote \<notin> set (sanitize_query db s)"
    using cls re_class_dquote by blast
  moreover have "squote \<notin> set (sanitize_query db s)"
    using cls re_class_squote by blast
  moreover have "backslash \<notin> set (sanitize_query db s)"
    using cls re_class_backslash by blast
  ultimately show ?thesis by blast
qed

text \<open>
  The input \<^verbatim>\<open>a"-\<close> (codes 97, 34, 45): the result holds the hyphen, which is in
  the allowed set, and no double quote.
\<close>

theorem sanitize_query_allowed_chars_witness:
  "45 \<in> set (sanitize_query ascii_only_db [97, 34, 45]) \<and>
   45 \<in> set (ascii ''_-.()&'') \<and>
   dquote \<notin> set (sanitize_query ascii_only_db [97, 34, 45])"
  using sanitize_query_allowed_chars [of ascii_only_db "[97, 34, 45]"]
  by (simp add: sanitize_query_def re_sub_def class_defs dquote_def squote_def
      backslash_def ascii_def)

text \<open>
  Claim C2. The result is never longer than 100 characters, and a longer input is cut,
  not refused: the result is the first 100 characters of what the character filter
  leaves of the input.
\<close>

theorem sanitize_query_length_le_100:
  "length (sanitize_query db s) \<le> 100 \<and>
   sanitize_query db s = take 100 (filter (re_class db) s)"
  by (simp add: sanitize_query_filter)

text \<open>
  Claim C3, as stated, says that a quote of the input appears in the result behind a
  backslash. It does not: on the input of one double quote the result is empty.
\<close>

theorem sanitize_query_quote_not_kept:
  "dquote \<in> set [dquote] \<and> sanitize_query ascii_only_db [dquote] = []"
  by (simp add: sanitize_query_def re_sub_def class_defs dquote_def squote_def backslash_def)

text \<open>
  Claim C3, amended. The result holds no double quote and no single quote, escaped or
  not, and no backslash: every quote of the input is deleted together with the backslash
  put before it, so the result is that of the input with its quotes taken out.
\<close>

theorem sanitize_query_strips_quotes:
  "dquote \<notin> set (sanitize_query db s) \<and>
   squote \<notin> set (sanitize_query db s) \<and>
   backslash \<notin> set (sanitize_query db s) \<and>
   sanitize_query db s = sanitize_query db (filter (\<lambda>c. c \<noteq> dquote \<and> c \<noteq> squote) s)"
proof -
  have "re_class db c \<and> c \<noteq> dquote \<and> c \<noteq> squote \<longleftrightarrow> re_class db c" for c
    using re_class_dquote re_class_squote by blast
  then have eq:
    "filter (re_class db) (filter (\<lambda>c. c \<noteq> dquote \<and> c \<noteq> squote) s) = filter (re_class db) s"
    by (simp add: conj_commute)
  have "dquote \<notin> set (sanitize_query db s)"
    using sanitize_query_class re_class_dquote by blast
  moreover have "squote \<notin> set (sanitize_query db s)"
    using sanitize_query_class re_class_squote by blast
  moreover have "backslash \<notin> set (sanitize_query db s)"
    using sanitize_query_class re_class_backslash by blast
  moreover have
    "sanitize_query db s = sanitize_query db (filter (\<lambda>c. c \<noteq> dquote \<and> c \<noteq> squote) s)"
    by (simp only: sanitize_query_filter eq)
  ultimately show ?thesis by blast
qed

text \<open>
  Claim C4. On the input \<^verbatim>\<open>He said "hi"\<close> the result is \<^verbatim>\<open>He said hi\<close>: both
  double quotes are gone, and so are the backslashes put before them.
\<close>

theorem sanitize_query_he_said_hi:
  "sanitize_query db (ascii ''He said '' @ [dquote] @ ascii ''hi'' @ [dquote])
     = ascii ''He said hi''"
  by (simp add: sanitize_query_filter ascii_def dquote_def class_defs)

text \<open>
  Claim C5. Sanitizing is idempotent: a sanitized string is left as it is by a second
  pass.
\<close>

theorem sanitize_query_idempotent:
  "sanitize_query db (sanitize_query db s) = sanitize_query db s"
proof -
  let ?t = "take 100 (filter (re_class db) s)"
  have "\<forall>c \<in> set ?t. re_class db c"
    by (auto dest: in_set_takeD)
  then have "filter (re_class db) ?t = ?t"
    by (simp only: filter_id_conv)
  then show ?thesis by (simp add: sanitize_query_filter)
qed

text \<open>
  Claim C6. The function is the composition of the four steps in their order: escape the
  double quotes, escape the single quotes, delete the characters outside the allowed
  set, keep the first 100 characters. Each step of the source is the step of the
  specification, and the deletion takes the inserted backslashes with it.
\<close>

theorem sanitize_query_four_steps:
  "sanitize_query db s = spec_sanitize db s \<and>
   str_replace [dquote] [backslash, dquote] s = spec_escape dquote s \<and>
   str_replace [squote] [backslash, squote] s = spec_escape squote s \<and>
   re_sub (\<lambda>c. \<not> re_class db c) [] s = spec_delete db s \<and>
   backslash \<notin> set (spec_delete db s)"
proof (intro conjI)
  show "sanitize_query db s = spec_sanitize db s"
    by (rule sanitize_query_spec)
  show "str_replace [dquote] [backslash, dquote] s = spec_escape dquote s"
    by (rule str_replace_spec_escape)
  show "str_replace [squote] [backslash, squote] s = spec_escape squote s"
    by (rule str_replace_spec_escape)
  show "re_sub (\<lambda>c. \<not> re_class db c) [] s = spec_delete db s"
    by (simp only: re_sub_delete spec_delete_def spec_allowed_re_class)
  show "backslash \<notin> set (spec_delete db s)"
    by (simp add: spec_delete_def spec_allowed_re_class re_class_backslash)
qed

text \<open>
  Claim C7. The function has a result on every string and depends on nothing but its
  argument: the empty string gives the empty string, a string without an allowed
  character gives the empty string, a string of more than 100 characters gives a string
  of at most 100, and the result is never longer than the input. The model has no error
  value because no operation of the source can raise on a string; that \<open>str_replace\<close>
  returns on every input is its termination proof.
\<close>

theorem sanitize_query_total:
  "sanitize_query db [] = [] \<and>
   ((\<forall>c \<in> set s. \<not> re_class db c) \<longrightarrow> sanitize_query db s = []) \<and>
   (100 < length s \<longrightarrow> length (sanitize_query db s) \<le> 100) \<and>
   (\<exists>r. sanitize_query db s = r \<and> length r \<le> length s)"
proof -
  have "sanitize_query db [] = []"
    by (simp add: sanitize_query_filter)
  moreover have "sanitize_query db s = []" if "\<forall>c \<in> set s. \<not> re_class db c"
    using that by (simp add: sanitize_query_filter filter_empty_conv)
  moreover have "length (sanitize_query db s) \<le> 100"
    by (simp add: sanitize_query_filter)
  moreover have "length (sanitize_query db s) \<le> length s"
  proof -
    have "length (take 100 (filter (re_class db) s)) \<le> length (filter (re_class db) s)"
      by simp
    also have "\<dots> \<le> length s" by (rule length_filter_le)
    finally show ?thesis by (simp only: sanitize_query_filter)
  qed
  ultimately show ?thesis by blast
qed

text \<open>
  The input \<^verbatim>\<open>!"\<close> holds no allowed character and gives the empty string; 101
  letters \<^verbatim>\<open>a\<close> give the first 100 of them.
\<close>

theorem sanitize_query_total_witness:
  "sanitize_query ascii_only_db [33, 34] = [] \<and>
   (100::nat) < length (replicate 101 (97::nat)) \<and>
   length (sanitize_query ascii_only_db (replicate 101 97)) \<le> 100 \<and>
   sanitize_query ascii_only_db (replicate 101 97) = replicate 100 97"
proof -
  have a: "\<forall>c \<in> set [33, 34]. \<not> re_class ascii_only_db c"
    using re_class_bang re_class_dquote by (simp add: dquote_def)
  have b: "(100::nat) < length (replicate 101 (97::nat))"
    by simp
  have c: "sanitize_query ascii_only_db (replicate 101 97) = replicate 100 97"
    by (simp add: sanitize_query_filter re_class_a)
  show ?thesis
    using sanitize_query_total [of ascii_only_db "[33, 34]"]
      sanitize_query_total [of ascii_only_db "replicate 101 97"] a b c
    by blast
qed

section \<open>Properties of the script runner and of the tools\<close>

text \<open>
  Claim C8. \<open>run_applescript\<close> hands \<^verbatim>\<open>osascript -e script\<close> to the operating
  system with a timeout of 30 seconds. When the process ends with exit code 0 the result
  is its stripped output; when it ends with another code, \<^verbatim>\<open>Error: \<close> and its
  stripped error text; when the call times out, the timeout message; when the call
  raises anything else, \<^verbatim>\<open>Error: \<close> and the text of the exception. In every case
  the function returns a string and raises nothing.
\<close>

theorem run_applescript_outcomes:
  "(os (osascript_argv script) 30 = Inr cp \<and> returncode cp = 0 \<longrightarrow>
      fst (run_applescript db os script lg) = Inr (str_strip db (stdout cp))) \<and>
   (os (osascript_argv script) 30 = Inr cp \<and> returncode cp \<noteq> 0 \<longrightarrow>
      fst (run_applescript db os script lg)
        = Inr (ascii ''Error: '' @ str_strip db (stderr cp))) \<and>
   (os (osascript_argv script) 30 = Inl TimeoutExpired \<longrightarrow>
      fst (run_applescript db os script lg)
        = Inr (ascii ''Error: AppleScript execution timed out'')) \<and>
   (os (osascript_argv script) 30 = Inl (OtherException msg) \<longrightarrow>
      fst (run_applescript db os script lg) = Inr (ascii ''Error: '' @ msg)) \<and>
   (\<exists>r. fst (run_applescript db os script lg) = Inr r) \<and>
   snd (run_applescript db os script lg) = lg @ [osascript_argv script]"
proof (intro conjI impI)
  assume "os (osascript_argv script) 30 = Inr cp \<and> returncode cp = 0"
  then show "fst (run_applescript db os script lg) = Inr (str_strip db (stdout cp))"
    by (simp add: run_applescript_def subprocess_run_def)
next
  assume "os (osascript_argv script) 30 = Inr cp \<and> returncode cp \<noteq> 0"
  then show "fst (run_applescript db os script lg)
      = Inr (ascii ''Error: '' @ str_strip db (stderr cp))"
    by (simp add: run_applescript_def subprocess_run_def)
next
  assume "os (osascript_argv script) 30 = Inl TimeoutExpired"
  then show "fst (run_applescript db os script lg)
      = Inr (ascii ''Error: AppleScript execution timed out'')"
    by (simp add: run_applescript_def subprocess_run_def)
next
  assume "os (osascript_argv script) 30 = Inl (OtherException msg)"
  then show "fst (run_applescript db os script lg) = Inr (ascii ''Error: '' @ msg)"
    by (simp add: run_applescript_def subprocess_run_def)
next
  show "\<exists>r. fst (run_applescript db os script lg) = Inr r"
    by (simp add: run_applescript_def subprocess_run_def split: sum.split exn.split)
next
  show "snd (run_applescript db os script lg) = lg @ [osascript_argv script]"
    by (simp add: run_applescript_def subprocess_run_def split: sum.split exn.split)
qed

text \<open>
  Four systems, one for each outcome: output \<^verbatim>\<open> ok\<close> and a line end with exit code
  0, error text \<^verbatim>\<open>no\<close> and a line end with exit code 1, a timeout, and an exception
  whose text is \<^verbatim>\<open>X\<close>.
\<close>

theorem run_applescript_outcomes_witness:
  "fst (run_applescript ascii_only_db
          (\<lambda>argv t. Inr \<lparr>returncode = 0, stdout = [32, 111, 107, 10], stderr = []\<rparr>)
          (ascii ''beep'') []) = Inr (ascii ''ok'') \<and>
   fst (run_applescript ascii_only_db
          (\<lambda>argv t. Inr \<lparr>returncode = 1, stdout = [], stderr = [110, 111, 10]\<rparr>)
          (ascii ''beep'') []) = Inr (ascii ''Error: no'') \<and>
   fst (run_applescript ascii_only_db (\<lambda>argv t. Inl TimeoutExpired) (ascii ''beep'') [])
     = Inr (ascii ''Error: AppleScript execution timed out'') \<and>
   fst (run_applescript ascii_only_db (\<lambda>argv t. Inl (OtherException [88]))
          (ascii ''beep'') []) = Inr (ascii ''Error: X'')"
  using
    run_applescript_outcomes
      [where os = "\<lambda>argv t. Inr \<lparr>returncode = 0, stdout = [32, 111, 107, 10], stderr = []\<rparr>"
        and cp = "\<lparr>returncode = 0, stdout = [32, 111, 107, 10], stderr = []\<rparr>"
        and script = "ascii ''beep''" and db = ascii_only_db and lg = "[]" and msg = "[88]"]
    run_applescript_outcomes
      [where os = "\<lambda>argv t. Inr \<lparr>returncode = 1, stdout = [], stderr = [110, 111, 10]\<rparr>"
        and cp = "\<lparr>returncode = 1, stdout = [], stderr = [110, 111, 10]\<rparr>"
        and script = "ascii ''beep''" and db = ascii_only_db and lg = "[]" and msg = "[88]"]
    run_applescript_outcomes
      [where os = "\<lambda>argv t. Inl TimeoutExpired"
        and cp = "\<lparr>returncode = 0, stdout = [], stderr = []\<rparr>"
        and script = "ascii ''beep''" and db = ascii_only_db and lg = "[]" and msg = "[88]"]
    run_applescript_outcomes
      [where os = "\<lambda>argv t. Inl (OtherException [88])"
        and cp = "\<lparr>returncode = 0, stdout = [], stderr = []\<rparr>"
        and script = "ascii ''beep''" and db = ascii_only_db and lg = "[]" and msg = "[88]"]
  by (simp add: str_strip_def str_isspace_def ascii_space_def ascii_def)

text \<open>
  Claim C9. When every piece of \<open>songs\<close> between commas is empty or whitespace only,
  \<open>itunes_create_playlist\<close> returns \<^verbatim>\<open>No songs provided.\<close> and hands no command to
  the operating system, whatever the name is.
\<close>

theorem itunes_create_playlist_no_songs:
  "\<forall>p \<in> set (str_split comma songs). \<forall>c \<in> set p. str_isspace db c \<Longrightarrow>
   itunes_create_playlist db os name songs lg = (Inr (ascii ''No songs provided.''), lg)"
proof -
  assume "\<forall>p \<in> set (str_split comma songs). \<forall>c \<in> set p. str_isspace db c"
  then have "filter (\<lambda>s. str_strip db s \<noteq> []) (str_split comma songs) = []"
    by (simp add: filter_empty_conv str_strip_empty)
  then show ?thesis
    by (simp add: itunes_create_playlist_def)
qed

text \<open>
  The songs \<^verbatim>\<open> ,,\<close> followed by a tab (codes 32, 44, 44, 9), and the empty string.
\<close>

theorem itunes_create_playlist_no_songs_witness:
  "itunes_create_playlist ascii_only_db (\<lambda>argv t. Inl TimeoutExpired) (ascii ''mix'')
     [32, 44, 44, 9] [] = (Inr (ascii ''No songs provided.''), []) \<and>
   itunes_create_playlist ascii_only_db (\<lambda>argv t. Inl TimeoutExpired) (ascii ''mix'')
     [] [] = (Inr (ascii ''No songs provided.''), [])"
  using
    itunes_create_playlist_no_songs
      [where songs = "[32, 44, 44, 9]" and db = ascii_only_db
        and os = "\<lambda>argv t. Inl TimeoutExpired" and name = "ascii ''mix''" and lg = "[]"]
    itunes_create_playlist_no_songs
      [where songs = "[]" and db = ascii_only_db
        and os = "\<lambda>argv t. Inl TimeoutExpired" and name = "ascii ''mix''" and lg = "[]"]
  by (simp add: comma_def str_isspace_def ascii_space_def)

text \<open>
  Claim C10. The script that \<open>itunes_search\<close> hands to the operating system is the fixed
  template around \<open>sanitize_query query\<close>. Whatever the query, the script holds the
  eight double quotes of the template and no other, and the embedded value holds neither
  a double quote nor a backslash, so it cannot end the literal it stands in.
\<close>

theorem itunes_search_script_quoting:
  "snd (itunes_search db os query lg)
     = lg @ [osascript_argv (itunes_search_script (sanitize_query db query))] \<and>
   count_list (itunes_search_script (sanitize_query db query)) dquote
     = count_list (itunes_search_script []) dquote \<and>
   count_list (itunes_search_script (sanitize_query db query)) dquote = 8 \<and>
   dquote \<notin> set (sanitize_query db query) \<and>
   backslash \<notin> set (sanitize_query db query)"
proof (intro conjI)
  show "snd (itunes_search db os query lg)
     = lg @ [osascript_argv (itunes_search_script (sanitize_query db query))]"
    by (simp add: itunes_search_def Let_def run_applescript_log)
  show "count_list (itunes_search_script (sanitize_query db query)) dquote
     = count_list (itunes_search_script []) dquote"
    by (simp add: itunes_search_script_quotes sanitize_query_no_dquote)
  show "count_list (itunes_search_script (sanitize_query db query)) dquote = 8"
    by (simp add: itunes_search_script_quotes sanitize_query_no_dquote)
  show "dquote \<notin> set (sanitize_query db query)"
    using sanitize_query_class re_class_dquote by blast
  show "backslash \<notin> set (sanitize_query db query)"
    using sanitize_query_class re_class_backslash by blast
qed

end
